theory Spec2Isabelle
  imports Complex_Main
begin

section \<open>JavaScript values used by the two components\<close>

text \<open>
  A value of type \<^verbatim>\<open>string | null\<close> is a \<^typ>\<open>string option\<close>. In a condition
  JavaScript treats both \<^verbatim>\<open>null\<close> and the empty string as false.
\<close>

definition truthy :: "string option \<Rightarrow> bool" where
  "truthy v = (case v of None \<Rightarrow> False | Some s \<Rightarrow> s \<noteq> [])"

text \<open>
  A JavaScript \<^verbatim>\<open>Map\<close> iterates in insertion order: \<^verbatim>\<open>set\<close> on a key that is
  present replaces the value where it stands, \<^verbatim>\<open>set\<close> on a new key appends, and
  \<^verbatim>\<open>delete\<close> removes the entry. It is modelled as an association list.
\<close>

type_synonym ('k, 'v) js_map = "('k \<times> 'v) list"

definition Map_has :: "'k \<Rightarrow> ('k, 'v) js_map \<Rightarrow> bool" where
  "Map_has k m = (k \<in> set (map fst m))"

fun Map_set :: "'k \<Rightarrow> 'v \<Rightarrow> ('k, 'v) js_map \<Rightarrow> ('k, 'v) js_map" where
  "Map_set k v [] = [(k, v)]"
| "Map_set k v ((k', v') # m) = (if k' = k then (k, v) # m else (k', v') # Map_set k v m)"

definition Map_delete :: "'k \<Rightarrow> ('k, 'v) js_map \<Rightarrow> ('k, 'v) js_map" where
  "Map_delete k m = filter (\<lambda>e. fst e \<noteq> k) m"

definition Map_values :: "('k, 'v) js_map \<Rightarrow> 'v list" where
  "Map_values m = map snd m"

definition Map_size :: "('k, 'v) js_map \<Rightarrow> nat" where
  "Map_size m = length m"

text \<open>A rejected promise. The handlers never inspect the reason.\<close>

datatype rejection = Rejected

text \<open>
  \<^verbatim>\<open>Promise.all\<close>: the results in order when every promise fulfils, a rejection as
  soon as one of them rejects.
\<close>

fun Promise_all :: "(rejection + 'a) list \<Rightarrow> rejection + 'a list" where
  "Promise_all [] = Inr []"
| "Promise_all (Inl e # ps) = Inl e"
| "Promise_all (Inr x # ps) = (case Promise_all ps of Inl e \<Rightarrow> Inl e | Inr xs \<Rightarrow> Inr (x # xs))"

section \<open>Source picker: data\<close>

record LibraryDocument =
  id_doc :: string
  filename :: string
  original_filename :: string
  content_type :: string
  file_size :: int
  created_at_doc :: string

record LibraryPaper =
  paper_id :: string
  title_paper :: string
  pdf_url :: "string option"
  arxiv_id :: "string option"
  source_paper :: "string option"
  has_local_pdf :: bool
  document_id_paper :: "string option"
  folder_id_paper :: string

record LibraryRepo =
  repo_id :: string
  full_name :: string
  description :: "string option"
  html_url :: string
  stars_count :: int
  primary_language :: "string option"
  has_local_doc :: bool
  document_id_repo :: "string option"
  folder_id_repo :: string

datatype LibraryFolder =
  LibraryFolder
    (id_folder: string)
    (name: string)
    (parent_id: "string option")
    (documents: "LibraryDocument list")
    (papers: "LibraryPaper list")
    (repos: "LibraryRepo list")
    (children: "LibraryFolder list")

record LibraryResponse =
  folders :: "LibraryFolder list"
  root_documents :: "LibraryDocument list"

record EmbedStatusItem =
  document_id :: string
  status :: string
  chunk_count :: int
  error_message :: "string option"

datatype item_type = Document | Paper | Repo

record SelectedItem =
  type_item :: item_type
  id_item :: string
  label :: string
  contentType :: "string option"
  paper :: "LibraryPaper option"
  repo :: "LibraryRepo option"

text \<open>The state cells of \<^verbatim>\<open>DocumentPickerModal\<close>.\<close>

record PickerState =
  library :: "LibraryResponse option"
  selectedItems :: "(string, SelectedItem) js_map"
  embedStatuses :: "(string, EmbedStatusItem) js_map"
  loading_picker :: bool
  embedding :: bool
  error :: "string option"

section \<open>Source picker: selection handlers\<close>

text \<open>The keys of the selection map, as the template strings build them.\<close>

definition doc_key :: "string \<Rightarrow> string" where
  "doc_key i = ''doc:'' @ i"

definition paper_key :: "string \<Rightarrow> string" where
  "paper_key i = ''paper:'' @ i"

definition repo_key :: "string \<Rightarrow> string" where
  "repo_key i = ''repo:'' @ i"

text \<open>
  \<^verbatim>\<open>findDoc\<close> inside \<^verbatim>\<open>toggleDoc\<close>: for each folder in order, first its own
  documents, then its children, depth first.
\<close>

fun findDoc :: "string \<Rightarrow> LibraryFolder list \<Rightarrow> LibraryDocument option" where
  "findDoc i [] = None"
| "findDoc i (LibraryFolder fid nm par ds ps rs cs # fs) =
     (case List.find (\<lambda>d. id_doc d = i) ds of
        Some d \<Rightarrow> Some d
      | None \<Rightarrow>
          (case findDoc i cs of
             Some found \<Rightarrow> Some found
           | None \<Rightarrow> findDoc i fs))"

definition docItem :: "LibraryResponse option \<Rightarrow> string \<Rightarrow> SelectedItem" where
  "docItem lib i =
     (let doc = (case lib of None \<Rightarrow> None | Some l \<Rightarrow> findDoc i (folders l)) in
      \<lparr> type_item = Document,
        id_item = i,
        label = (case doc of
                   None \<Rightarrow> i
                 | Some d \<Rightarrow> if original_filename d \<noteq> [] then original_filename d else i),
        contentType = map_option content_type doc,
        paper = None,
        repo = None \<rparr>)"

definition paperItem :: "LibraryPaper \<Rightarrow> SelectedItem" where
  "paperItem p =
     \<lparr> type_item = Paper,
       id_item = paper_id p,
       label = title_paper p,
       contentType = Some ''application/pdf'',
       paper = Some p,
       repo = None \<rparr>"

definition repoItem :: "LibraryRepo \<Rightarrow> SelectedItem" where
  "repoItem r =
     \<lparr> type_item = Repo,
       id_item = repo_id r,
       label = full_name r,
       contentType = Some ''text/x-github-repo'',
       paper = None,
       repo = Some r \<rparr>"

definition toggleDoc :: "string \<Rightarrow> PickerState \<Rightarrow> PickerState" where
  "toggleDoc i st =
     (let prev = selectedItems st; key = doc_key i in
      st\<lparr>selectedItems :=
           (if Map_has key prev then Map_delete key prev
            else Map_set key (docItem (library st) i) prev)\<rparr>)"

definition togglePaper :: "LibraryPaper \<Rightarrow> PickerState \<Rightarrow> PickerState" where
  "togglePaper p st =
     (let prev = selectedItems st; key = paper_key (paper_id p) in
      st\<lparr>selectedItems :=
           (if Map_has key prev then Map_delete key prev
            else Map_set key (paperItem p) prev)\<rparr>)"

definition toggleRepo :: "LibraryRepo \<Rightarrow> PickerState \<Rightarrow> PickerState" where
  "toggleRepo r st =
     (let prev = selectedItems st; key = repo_key (repo_id r) in
      st\<lparr>selectedItems :=
           (if Map_has key prev then Map_delete key prev
            else Map_set key (repoItem r) prev)\<rparr>)"

definition removeItem :: "string \<Rightarrow> PickerState \<Rightarrow> PickerState" where
  "removeItem key st = st\<lparr>selectedItems := Map_delete key (selectedItems st)\<rparr>"

text \<open>
  One toggle call of any of the three kinds; \<open>toggle_key\<close> is the map key the call
  works on.
\<close>

datatype toggle = ToggleDoc string | TogglePaper LibraryPaper | ToggleRepo LibraryRepo

fun toggle_key :: "toggle \<Rightarrow> string" where
  "toggle_key (ToggleDoc i) = doc_key i"
| "toggle_key (TogglePaper p) = paper_key (paper_id p)"
| "toggle_key (ToggleRepo r) = repo_key (repo_id r)"

fun toggle_item :: "LibraryResponse option \<Rightarrow> toggle \<Rightarrow> SelectedItem" where
  "toggle_item lib (ToggleDoc i) = docItem lib i"
| "toggle_item lib (TogglePaper p) = paperItem p"
| "toggle_item lib (ToggleRepo r) = repoItem r"

fun toggle_call :: "toggle \<Rightarrow> PickerState \<Rightarrow> PickerState" where
  "toggle_call (ToggleDoc i) st = toggleDoc i st"
| "toggle_call (TogglePaper p) st = togglePaper p st"
| "toggle_call (ToggleRepo r) st = toggleRepo r st"

text \<open>
  The effect that runs when the picker opens: the selection is rebuilt from
  \<^verbatim>\<open>initialDocumentIds\<close>, each id as a document labelled by its raw id; the status
  map and the error are cleared.
\<close>

definition restoreSelection :: "string list \<Rightarrow> PickerState \<Rightarrow> PickerState" where
  "restoreSelection initialDocumentIds st =
     st\<lparr>selectedItems :=
          fold (\<lambda>i m. Map_set (doc_key i)
                 \<lparr> type_item = Document, id_item = i, label = i, contentType = None,
                   paper = None, repo = None \<rparr> m)
            initialDocumentIds [],
        embedStatuses := [],
        error := None\<rparr>"

text \<open>
  What the rendered picker lets the user do to the selection. \<^verbatim>\<open>FolderNode\<close> renders
  a paper's checkbox with
  \<^verbatim>\<open>disabled={!paper.pdf_url && !paper.has_local_pdf}\<close>, and a disabled checkbox
  delivers no change event; the other checkboxes and the remove button are always
  enabled.
\<close>

definition paperCheckboxDisabled :: "LibraryPaper \<Rightarrow> bool" where
  "paperCheckboxDisabled p = (\<not> truthy (pdf_url p) \<and> \<not> has_local_pdf p)"

datatype picker_event =
    ChangeDocCheckbox string
  | ChangePaperCheckbox LibraryPaper
  | ChangeRepoCheckbox LibraryRepo
  | ClickRemove string

fun picker_event_step :: "picker_event \<Rightarrow> PickerState \<Rightarrow> PickerState" where
  "picker_event_step (ChangeDocCheckbox i) st = toggleDoc i st"
| "picker_event_step (ChangePaperCheckbox p) st =
     (if paperCheckboxDisabled p then st else togglePaper p st)"
| "picker_event_step (ChangeRepoCheckbox r) st = toggleRepo r st"
| "picker_event_step (ClickRemove key) st = removeItem key st"

definition picker_events :: "picker_event list \<Rightarrow> PickerState \<Rightarrow> PickerState" where
  "picker_events es st = fold picker_event_step es st"

definition toggle_calls :: "toggle list \<Rightarrow> PickerState \<Rightarrow> PickerState" where
  "toggle_calls ts st = fold toggle_call ts st"

text \<open>A selected paper item carries a catalog record with a PDF to fetch or a stored one.\<close>

definition paper_has_pdf :: "SelectedItem \<Rightarrow> bool" where
  "paper_has_pdf item =
     (case paper item of
        None \<Rightarrow> False
      | Some p \<Rightarrow> truthy (pdf_url p) \<or> has_local_pdf p)"

definition no_pdfless_paper :: "PickerState \<Rightarrow> bool" where
  "no_pdfless_paper st =
     list_all (\<lambda>item. type_item item \<noteq> Paper \<or> paper_has_pdf item)
       (Map_values (selectedItems st))"

section \<open>Source picker: submission\<close>

text \<open>
  The two embedding endpoints of \<^verbatim>\<open>lib/api.ts\<close> are HTTP calls; each is a function
  from its arguments to the \<^verbatim>\<open>results\<close> array of the response, or a rejection.
\<close>

record EmbedApi =
  embedDocuments :: "string list \<Rightarrow> string list \<Rightarrow> rejection + EmbedStatusItem list"
  embedRepos :: "string list \<Rightarrow> rejection + EmbedStatusItem list"

definition ids_of_type :: "item_type \<Rightarrow> SelectedItem list \<Rightarrow> string list" where
  "ids_of_type t items = map id_item (filter (\<lambda>i. type_item i = t) items)"

text \<open>The embed calls \<^verbatim>\<open>handleConfirm\<close> issues, in the order it pushes them.\<close>

definition embedPromises ::
  "EmbedApi \<Rightarrow> PickerState \<Rightarrow> (rejection + EmbedStatusItem list) list" where
  "embedPromises api st =
     (let items = Map_values (selectedItems st);
          documentIds = ids_of_type Document items;
          paperIds = ids_of_type Paper items;
          repoIds = ids_of_type Repo items in
      (if documentIds \<noteq> [] \<or> paperIds \<noteq> [] then [embedDocuments api documentIds paperIds]
       else []) @
      (if repoIds \<noteq> [] then [embedRepos api repoIds] else []))"

text \<open>
  The merged per-item outcomes (\<^verbatim>\<open>allResults\<close>): \<open>None\<close> when nothing is
  submitted or a call rejects.
\<close>

definition mergedOutcomes :: "EmbedApi \<Rightarrow> PickerState \<Rightarrow> EmbedStatusItem list option" where
  "mergedOutcomes api st =
     (if Map_size (selectedItems st) = 0 then None
      else case Promise_all (embedPromises api st) of
             Inl e \<Rightarrow> None
           | Inr results \<Rightarrow> Some (concat results))"

definition statusMap :: "EmbedStatusItem list \<Rightarrow> (string, EmbedStatusItem) js_map" where
  "statusMap rs = fold (\<lambda>item m. Map_set (document_id item) item m) rs []"

text \<open>
  \<^verbatim>\<open>handleConfirm\<close> returns the picker's next state and the argument of the
  \<^verbatim>\<open>onConfirm\<close> call when it makes one.
\<close>

definition handleConfirm :: "EmbedApi \<Rightarrow> PickerState \<Rightarrow> PickerState \<times> string list option" where
  "handleConfirm api st =
     (if Map_size (selectedItems st) = 0 then (st, None)
      else
        let st1 = st\<lparr>embedding := True, error := None\<rparr> in
        case Promise_all (embedPromises api st) of
          Inl e \<Rightarrow> (st1\<lparr>error := Some ''Failed to embed documents'', embedding := False\<rparr>, None)
        | Inr results \<Rightarrow>
            let allResults = concat results;
                st2 = st1\<lparr>embedStatuses := statusMap allResults\<rparr>;
                failures = filter (\<lambda>r. status r = ''failed'') allResults in
            if length failures > 0 \<and> length failures = length allResults
            then (st2\<lparr>error := Some ''All items failed to embed'', embedding := False\<rparr>, None)
            else
              let successIds = map document_id (filter (\<lambda>r. status r = ''completed'') allResults)
              in (st2\<lparr>embedding := False\<rparr>, Some successIds))"

section \<open>Conversation controller: data\<close>

datatype Mode = Global | Documents

datatype ContextMode = Rag | Full_context

datatype Role = User | Assistant

record Citation =
  title_cite :: "string option"
  source_cite :: "string option"
  url :: "string option"
  type_cite :: "string option"
  relevance_score :: "rat option"

record Message =
  id_msg :: "string option"
  role :: Role
  content :: string
  citations :: "Citation list option"
  confidence :: "rat option"

record ConversationItem =
  id_conv :: string
  title_conv :: "string option"
  mode :: string
  context_mode :: string
  created_at :: string
  updated_at :: string
  last_message_preview :: "string option"

text \<open>
  The fields the controller reads from the body that \<^verbatim>\<open>createConversation\<close> and
  \<^verbatim>\<open>fetchConversation\<close> return; \<open>None\<close> is a field that is missing or empty, for
  which the controller falls back on a default.
\<close>

record ConversationData =
  id_data :: string
  mode_data :: "Mode option"
  context_mode_data :: "ContextMode option"
  document_ids :: "string list option"
  messages_data :: "Message list"

text \<open>The state cells of \<^verbatim>\<open>ChatPage\<close>.\<close>

record ChatState =
  conversations :: "ConversationItem list"
  activeConversationId :: "string option"
  activeMode :: Mode
  contextMode :: ContextMode
  activeDocumentIds :: "string list"
  messages :: "Message list"
  input :: string
  loading :: bool
  sidebarOpen :: bool
  pickerOpen :: bool

text \<open>
  The conversation endpoints of \<^verbatim>\<open>lib/api.ts\<close>, each a function from its arguments
  to the response body or a rejection, and the network requests a handler issues, in
  the order it issues them.
\<close>

record ChatApi =
  fetchConversations :: "rejection + ConversationItem list"
  createConversation :: "string option \<Rightarrow> Mode \<Rightarrow> ContextMode \<Rightarrow> rejection + ConversationData"
  fetchConversation :: "string \<Rightarrow> rejection + ConversationData"
  deleteConversation :: "string \<Rightarrow> rejection + unit"
  sendConversationMessage :: "string \<Rightarrow> string \<Rightarrow> rejection + Message list"
  setConversationDocuments :: "string \<Rightarrow> string list \<Rightarrow> rejection + unit"
  updateContextMode :: "string \<Rightarrow> ContextMode \<Rightarrow> rejection + unit"

datatype api_call =
    FetchConversations
  | CreateConversation "string option" Mode ContextMode
  | FetchConversation string
  | DeleteConversation string
  | SendConversationMessage string string
  | SetConversationDocuments string "string list"
  | UpdateContextMode string ContextMode

definition initialChatState :: ChatState where
  "initialChatState =
     \<lparr> conversations = [], activeConversationId = None, activeMode = Global,
       contextMode = Rag, activeDocumentIds = [], messages = [], input = [],
       loading = False, sidebarOpen = True, pickerOpen = False \<rparr>"

section \<open>Conversation controller: handlers\<close>

text \<open>
  \<^verbatim>\<open>loadConversations\<close>: the handlers exist only once a user is signed in, so the
  \<^verbatim>\<open>!user\<close> return is not taken; a failed fetch keeps the cached list.
\<close>

definition loadConversations :: "ChatApi \<Rightarrow> ChatState \<Rightarrow> ChatState \<times> api_call list" where
  "loadConversations api st =
     (case fetchConversations api of
        Inl e \<Rightarrow> (st, [FetchConversations])
      | Inr data \<Rightarrow> (st\<lparr>conversations := data\<rparr>, [FetchConversations]))"

definition handleNewChat :: "ChatState \<Rightarrow> ChatState" where
  "handleNewChat st =
     st\<lparr>activeConversationId := None, messages := [], activeMode := Global,
        contextMode := Rag, activeDocumentIds := []\<rparr>"

definition copyMessage :: "Message \<Rightarrow> Message" where
  "copyMessage m =
     \<lparr> id_msg = id_msg m, role = role m, content = content m,
       citations = citations m, confidence = confidence m \<rparr>"

definition handleSelectConversation ::
  "ChatApi \<Rightarrow> string \<Rightarrow> ChatState \<Rightarrow> ChatState \<times> api_call list" where
  "handleSelectConversation api i st =
     (let st1 = st\<lparr>activeConversationId := Some i\<rparr> in
      case fetchConversation api i of
        Inl e \<Rightarrow> (st1\<lparr>messages := []\<rparr>, [FetchConversation i])
      | Inr data \<Rightarrow>
          (st1\<lparr>activeMode := (case mode_data data of None \<Rightarrow> Global | Some m \<Rightarrow> m),
               contextMode := (case context_mode_data data of None \<Rightarrow> Rag | Some c \<Rightarrow> c),
               activeDocumentIds := (case document_ids data of None \<Rightarrow> [] | Some ds \<Rightarrow> ds),
               messages := map copyMessage (messages_data data)\<rparr>,
           [FetchConversation i]))"

definition handleDeleteConversation ::
  "ChatApi \<Rightarrow> string \<Rightarrow> ChatState \<Rightarrow> ChatState \<times> api_call list" where
  "handleDeleteConversation api i st =
     (case deleteConversation api i of
        Inl e \<Rightarrow> (st, [DeleteConversation i])
      | Inr u \<Rightarrow>
          (let st1 = st\<lparr>conversations := filter (\<lambda>c. id_conv c \<noteq> i) (conversations st)\<rparr> in
           if activeConversationId st = Some i
           then st1\<lparr>activeConversationId := None, messages := [], activeMode := Global,
                    contextMode := Rag, activeDocumentIds := []\<rparr>
           else st1,
           [DeleteConversation i]))"

definition handleModeToggle :: "ChatState \<Rightarrow> ChatState" where
  "handleModeToggle st =
     (if activeMode st = Global
      then st\<lparr>activeMode := Documents, pickerOpen := True\<rparr>
      else st\<lparr>activeMode := Global, contextMode := Rag, activeDocumentIds := [],
              activeConversationId := None, messages := []\<rparr>)"

definition handleDocumentsConfirmed ::
  "ChatApi \<Rightarrow> string list \<Rightarrow> ChatState \<Rightarrow> ChatState \<times> api_call list" where
  "handleDocumentsConfirmed api docIds st =
     (let st1 = st\<lparr>pickerOpen := False, activeDocumentIds := docIds\<rparr> in
      if length docIds = 0 then (st1\<lparr>activeMode := Global\<rparr>, [])
      else if \<not> truthy (activeConversationId st) \<or> activeMode st \<noteq> Documents
      then
        (case createConversation api None Documents (contextMode st) of
           Inl e \<Rightarrow> (st1, [CreateConversation None Documents (contextMode st)])
         | Inr conv \<Rightarrow>
             let convId = id_data conv;
                 st2 = st1\<lparr>activeConversationId := Some convId, messages := []\<rparr>;
                 (st3, calls) = loadConversations api st2
             in (st3,
                 [CreateConversation None Documents (contextMode st)] @ calls @
                 [SetConversationDocuments convId docIds]))
      else
        (case activeConversationId st of
           None \<Rightarrow> (st1, [])
         | Some convId \<Rightarrow> (st1, [SetConversationDocuments convId docIds])))"

definition handleContextModeToggle ::
  "ChatApi \<Rightarrow> ContextMode \<Rightarrow> ChatState \<Rightarrow> ChatState \<times> api_call list" where
  "handleContextModeToggle api m st =
     (let st1 = st\<lparr>contextMode := m\<rparr> in
      case activeConversationId st of
        None \<Rightarrow> (st1, [])
      | Some convId \<Rightarrow>
          if convId = [] then (st1, [])
          else
            (case updateContextMode api convId m of
               Inl e \<Rightarrow> (st1, [UpdateContextMode convId m])
             | Inr u \<Rightarrow> (st1, [UpdateContextMode convId m])))"

text \<open>
  The two context-mode buttons are rendered only under
  \<^verbatim>\<open>activeMode === "documents" && activeDocumentIds.length > 0\<close>; a click on one of
  them is the only caller of \<^verbatim>\<open>handleContextModeToggle\<close>.
\<close>

definition contextToggleRendered :: "ChatState \<Rightarrow> bool" where
  "contextToggleRendered st = (activeMode st = Documents \<and> length (activeDocumentIds st) > 0)"

definition clickContextMode ::
  "ChatApi \<Rightarrow> ContextMode \<Rightarrow> ChatState \<Rightarrow> ChatState \<times> api_call list" where
  "clickContextMode api m st =
     (if contextToggleRendered st then handleContextModeToggle api m st else (st, []))"

definition handleManageSources :: "ChatState \<Rightarrow> ChatState" where
  "handleManageSources st = st\<lparr>pickerOpen := True\<rparr>"

text \<open>The picker's \<^verbatim>\<open>onClose\<close> as \<^verbatim>\<open>ChatPage\<close> passes it.\<close>

definition pickerOnClose :: "ChatState \<Rightarrow> ChatState" where
  "pickerOnClose st =
     (let st1 = st\<lparr>pickerOpen := False\<rparr> in
      if length (activeDocumentIds st) = 0 then st1\<lparr>activeMode := Global\<rparr> else st1)"

text \<open>
  A JavaScript string is modelled by its UTF-8 bytes. \<^verbatim>\<open>String.prototype.trim\<close>
  removes white space and line terminators from both ends: tab, line feed, vertical
  tab, form feed, carriage return, space, U+00A0, U+1680, U+2000 to U+200A, U+2028,
  U+2029, U+202F, U+205F, U+3000 and U+FEFF, listed here by their encodings.
\<close>

definition white_space :: "string list" where
  "white_space =
     [[CHR 0x09], [CHR 0x0A], [CHR 0x0B], [CHR 0x0C], [CHR 0x0D], [CHR 0x20],
      [CHR 0xC2, CHR 0xA0],
      [CHR 0xE1, CHR 0x9A, CHR 0x80],
      [CHR 0xE2, CHR 0x80, CHR 0x80], [CHR 0xE2, CHR 0x80, CHR 0x81],
      [CHR 0xE2, CHR 0x80, CHR 0x82], [CHR 0xE2, CHR 0x80, CHR 0x83],
      [CHR 0xE2, CHR 0x80, CHR 0x84], [CHR 0xE2, CHR 0x80, CHR 0x85],
      [CHR 0xE2, CHR 0x80, CHR 0x86], [CHR 0xE2, CHR 0x80, CHR 0x87],
      [CHR 0xE2, CHR 0x80, CHR 0x88], [CHR 0xE2, CHR 0x80, CHR 0x89],
      [CHR 0xE2, CHR 0x80, CHR 0x8A],
      [CHR 0xE2, CHR 0x80, CHR 0xA8], [CHR 0xE2, CHR 0x80, CHR 0xA9],
      [CHR 0xE2, CHR 0x80, CHR 0xAF],
      [CHR 0xE2, CHR 0x81, CHR 0x9F],
      [CHR 0xE3, CHR 0x80, CHR 0x80],
      [CHR 0xEF, CHR 0xBB, CHR 0xBF]]"

text \<open>Removes from the front of \<open>s\<close> every leading occurrence of one of the byte sequences.\<close>

function strip_leading :: "string list \<Rightarrow> string \<Rightarrow> string" where
  "strip_leading ts s =
     (case List.find (\<lambda>t. t \<noteq> [] \<and> take (length t) s = t) ts of
        None \<Rightarrow> s
      | Some t \<Rightarrow> strip_leading ts (drop (length t) s))"
  by pat_completeness auto
termination
proof (relation "measure (\<lambda>(ts, s). length s)")
  show "wf (measure (\<lambda>(ts, s). length s))" by simp
next
  fix ts :: "string list" and s t :: string
  assume "List.find (\<lambda>t. t \<noteq> [] \<and> take (length t) s = t) ts = Some t"
  then have t: "t \<noteq> []" and "take (length t) s = t"
    by (auto simp: find_Some_iff)
  then have "length (take (length t) s) = length t" by simp
  then have "length t \<le> length s" by simp
  with t show "((ts, drop (length t) s), (ts, s)) \<in> measure (\<lambda>(ts, s). length s)"
    by (cases t) auto
qed

declare strip_leading.simps [simp del]

definition trim :: "string \<Rightarrow> string" where
  "trim s = rev (strip_leading (map rev white_space) (rev (strip_leading white_space s)))"

definition userMessage :: "string \<Rightarrow> Message" where
  "userMessage q =
     \<lparr> id_msg = None, role = User, content = q, citations = None, confidence = None \<rparr>"

definition failureNotice :: Message where
  "failureNotice =
     \<lparr> id_msg = None, role = Assistant,
       content = ''Sorry, something went wrong. Please try again.'',
       citations = None, confidence = None \<rparr>"

text \<open>
  \<^verbatim>\<open>handleSend\<close> up to its first \<^verbatim>\<open>await\<close>: \<open>None\<close> when the guard returns, else
  the trimmed question and the state with the input cleared, the optimistic user
  message appended and the loading flag set.
\<close>

definition handleSend_begin :: "ChatState \<Rightarrow> (string \<times> ChatState) option" where
  "handleSend_begin st =
     (let q = trim (input st) in
      if q = [] \<or> loading st then None
      else Some (q, st\<lparr>input := [], messages := messages st @ [userMessage q],
                       loading := True\<rparr>))"

text \<open>
  The first part of the \<^verbatim>\<open>try\<close> block: the conversation to send to, created (and
  given the attached documents in documents mode) when none is bound. The result is
  the conversation id or the rejection that leaves the \<^verbatim>\<open>try\<close> block.
\<close>

definition ensureConversation ::
  "ChatApi \<Rightarrow> ChatState \<Rightarrow> (rejection + string) \<times> ChatState \<times> api_call list" where
  "ensureConversation api st =
     (case (if truthy (activeConversationId st) then activeConversationId st else None) of
        Some convId \<Rightarrow> (Inr convId, st, [])
      | None \<Rightarrow>
          (case createConversation api None (activeMode st) (contextMode st) of
             Inl e \<Rightarrow> (Inl e, st, [CreateConversation None (activeMode st) (contextMode st)])
           | Inr conv \<Rightarrow>
               let convId = id_data conv;
                   st1 = st\<lparr>activeConversationId := Some convId\<rparr>;
                   created = [CreateConversation None (activeMode st) (contextMode st)]
               in
               if activeMode st = Documents \<and> length (activeDocumentIds st) > 0
               then
                 (case setConversationDocuments api convId (activeDocumentIds st) of
                    Inl e \<Rightarrow>
                      (Inl e, st1,
                       created @ [SetConversationDocuments convId (activeDocumentIds st)])
                  | Inr u \<Rightarrow>
                      (Inr convId, st1,
                       created @ [SetConversationDocuments convId (activeDocumentIds st)]))
               else (Inr convId, st1, created)))"

text \<open>
  The rest of \<^verbatim>\<open>handleSend\<close>. The last component tells whether the \<^verbatim>\<open>catch\<close>
  block ran, that is, whether the send failed.
\<close>

definition handleSend_rest ::
  "ChatApi \<Rightarrow> string \<Rightarrow> ChatState \<Rightarrow> ChatState \<times> api_call list \<times> bool" where
  "handleSend_rest api q st =
     (case ensureConversation api st of
        (Inl e, st1, calls) \<Rightarrow>
          (st1\<lparr>messages := messages st1 @ [failureNotice], loading := False\<rparr>, calls, True)
      | (Inr convId, st1, calls) \<Rightarrow>
          (case sendConversationMessage api convId q of
             Inl e \<Rightarrow>
               (st1\<lparr>messages := messages st1 @ [failureNotice], loading := False\<rparr>,
                calls @ [SendConversationMessage convId q], True)
           | Inr data \<Rightarrow>
               let st2 = st1\<lparr>messages := butlast (messages st1) @ map copyMessage data\<rparr>;
                   (st3, calls') = loadConversations api st2
               in (st3\<lparr>loading := False\<rparr>,
                   calls @ [SendConversationMessage convId q] @ calls', False)))"

definition handleSend :: "ChatApi \<Rightarrow> ChatState \<Rightarrow> ChatState \<times> api_call list \<times> bool" where
  "handleSend api st =
     (case handleSend_begin st of
        None \<Rightarrow> (st, [], False)
      | Some (q, st1) \<Rightarrow> handleSend_rest api q st1)"

text \<open>
  \<^verbatim>\<open>handleSend\<close> with the other handlers interleaved. While a request of the send is
  pending the page stays usable (New Chat, the conversation list, the mode switch and
  the input field are not disabled), so other handlers may change the state before the
  request settles. The continuation reads \<^verbatim>\<open>activeConversationId\<close>, \<^verbatim>\<open>activeMode\<close>,
  \<^verbatim>\<open>contextMode\<close> and \<^verbatim>\<open>activeDocumentIds\<close> from its closure, that is, as they
  were when the send was invoked, and applies its setters (the transcript ones are
  functional updaters) to the state as it stands. An \<open>interference\<close> gives what the
  other handlers do to the state while each request is pending.
\<close>

record interference =
  during_create :: "ChatState \<Rightarrow> ChatState"
  during_setDocuments :: "ChatState \<Rightarrow> ChatState"
  during_send :: "ChatState \<Rightarrow> ChatState"
  during_refresh :: "ChatState \<Rightarrow> ChatState"

definition no_interference :: interference where
  "no_interference =
     \<lparr> during_create = (\<lambda>s. s), during_setDocuments = (\<lambda>s. s),
       during_send = (\<lambda>s. s), during_refresh = (\<lambda>s. s) \<rparr>"

text \<open>The \<^verbatim>\<open>catch\<close> block followed by the \<^verbatim>\<open>finally\<close> block, on the state as it stands.\<close>

definition sendFailed :: "ChatState \<Rightarrow> ChatState" where
  "sendFailed cur = cur\<lparr>messages := messages cur @ [failureNotice], loading := False\<rparr>"

text \<open>
  From the call of \<^verbatim>\<open>sendConversationMessage\<close> on; \<open>calls\<close> are the requests issued
  before it and \<open>cur\<close> is the state when it is issued.
\<close>

definition sendAwaited ::
  "ChatApi \<Rightarrow> interference \<Rightarrow> string \<Rightarrow> string \<Rightarrow> api_call list \<Rightarrow> ChatState \<Rightarrow>
   ChatState \<times> api_call list \<times> bool" where
  "sendAwaited api w q convId calls cur =
     (let cur1 = during_send w cur in
      case sendConversationMessage api convId q of
        Inl e \<Rightarrow> (sendFailed cur1, calls @ [SendConversationMessage convId q], True)
      | Inr data \<Rightarrow>
          let cur2 = cur1\<lparr>messages := butlast (messages cur1) @ map copyMessage data\<rparr>;
              (cur3, calls') = loadConversations api (during_refresh w cur2)
          in (cur3\<lparr>loading := False\<rparr>,
              calls @ [SendConversationMessage convId q] @ calls', False))"

text \<open>
  The rest of \<^verbatim>\<open>handleSend\<close> after its guard; \<open>cl\<close> is the state the synchronous
  part left, which is both the closure of the continuation and the state the first
  request is issued in.
\<close>

definition handleSend_rest_interleaved ::
  "ChatApi \<Rightarrow> interference \<Rightarrow> string \<Rightarrow> ChatState \<Rightarrow> ChatState \<times> api_call list \<times> bool" where
  "handleSend_rest_interleaved api w q cl =
     (case (if truthy (activeConversationId cl) then activeConversationId cl else None) of
        Some convId \<Rightarrow> sendAwaited api w q convId [] cl
      | None \<Rightarrow>
          let created = [CreateConversation None (activeMode cl) (contextMode cl)];
              cur = during_create w cl
          in
          case createConversation api None (activeMode cl) (contextMode cl) of
            Inl e \<Rightarrow> (sendFailed cur, created, True)
          | Inr conv \<Rightarrow>
              let convId = id_data conv;
                  cur1 = cur\<lparr>activeConversationId := Some convId\<rparr>
              in
              if activeMode cl = Documents \<and> length (activeDocumentIds cl) > 0
              then
                let calls = created @ [SetConversationDocuments convId (activeDocumentIds cl)];
                    cur2 = during_setDocuments w cur1
                in
                (case setConversationDocuments api convId (activeDocumentIds cl) of
                   Inl e \<Rightarrow> (sendFailed cur2, calls, True)
                 | Inr u \<Rightarrow> sendAwaited api w q convId calls cur2)
              else sendAwaited api w q convId created cur1)"

definition handleSend_interleaved ::
  "ChatApi \<Rightarrow> interference \<Rightarrow> ChatState \<Rightarrow> ChatState \<times> api_call list \<times> bool" where
  "handleSend_interleaved api w st =
     (case handleSend_begin st of
        None \<Rightarrow> (st, [], False)
      | Some (q, st1) \<Rightarrow> handleSend_rest_interleaved api w q st1)"


text \<open>
  The back end rejects a request of the send of question \<open>q\<close> invoked in state \<open>st\<close>:
  the message request on the bound conversation; or, with no conversation bound, the
  create request, the association request that follows it in documents mode with
  attached ids, or the message request on the conversation just created.
\<close>

definition send_rejected :: "ChatApi \<Rightarrow> string \<Rightarrow> ChatState \<Rightarrow> bool" where
  "send_rejected api q st =
     (case (if truthy (activeConversationId st) then activeConversationId st else None) of
        Some convId \<Rightarrow> isl (sendConversationMessage api convId q)
      | None \<Rightarrow>
          (case createConversation api None (activeMode st) (contextMode st) of
             Inl e \<Rightarrow> True
           | Inr conv \<Rightarrow>
               (activeMode st = Documents \<and> length (activeDocumentIds st) > 0 \<and>
                isl (setConversationDocuments api (id_data conv) (activeDocumentIds st))) \<or>
               isl (sendConversationMessage api (id_data conv) q)))"






text \<open>
  \<^verbatim>\<open>ChatPage\<close> renders the picker with \<^verbatim>\<open>onConfirm={handleDocumentsConfirmed}\<close>:
  a press of the picker's confirm button runs \<^verbatim>\<open>handleConfirm\<close> and, when that calls
  \<^verbatim>\<open>onConfirm\<close>, the controller's handler on the ids handed over.
\<close>

definition confirmPressed ::
  "EmbedApi \<Rightarrow> ChatApi \<Rightarrow> PickerState \<times> ChatState \<Rightarrow> (PickerState \<times> ChatState) \<times> api_call list" where
  "confirmPressed eapi capi pc =
     (case handleConfirm eapi (fst pc) of
        (ps, None) \<Rightarrow> ((ps, snd pc), [])
      | (ps, Some ids) \<Rightarrow>
          (case handleDocumentsConfirmed capi ids (snd pc) of
             (cs, calls) \<Rightarrow> ((ps, cs), calls)))"

text \<open>The controller state the specification calls \<open>Idle(global)\<close>.\<close>

definition Idle_global :: "ChatState \<Rightarrow> bool" where
  "Idle_global st =
     (activeMode st = Global \<and> contextMode st = Rag \<and> activeConversationId st = None \<and>
      activeDocumentIds st = [])"

section \<open>Concrete inputs\<close>

text \<open>
  A small catalog: one folder with a document, a paper that has a PDF link and a paper
  that has neither a link nor a stored PDF.
\<close>

definition paper_without_pdf :: LibraryPaper where
  "paper_without_pdf =
     \<lparr> paper_id = ''p1'', title_paper = ''Preprint without PDF'', pdf_url = None,
       arxiv_id = None, source_paper = Some ''manual'', has_local_pdf = False,
       document_id_paper = None, folder_id_paper = ''f1'' \<rparr>"

definition paper_with_pdf :: LibraryPaper where
  "paper_with_pdf =
     \<lparr> paper_id = ''p2'', title_paper = ''Attention'',
       pdf_url = Some ''https://arxiv.org/pdf/2401.12345'',
       arxiv_id = Some ''2401.12345'', source_paper = Some ''arxiv'', has_local_pdf = False,
       document_id_paper = None, folder_id_paper = ''f1'' \<rparr>"

definition notes_document :: LibraryDocument where
  "notes_document =
     \<lparr> id_doc = ''d1'', filename = ''a1b2.pdf'', original_filename = ''notes.pdf'',
       content_type = ''application/pdf'', file_size = 2048,
       created_at_doc = ''2024-01-01'' \<rparr>"

definition sample_repo :: LibraryRepo where
  "sample_repo =
     \<lparr> repo_id = ''r1'', full_name = ''octo/demo'', description = None,
       html_url = ''https://github.com/octo/demo'', stars_count = 7,
       primary_language = None, has_local_doc = False, document_id_repo = None,
       folder_id_repo = ''f1'' \<rparr>"

definition sample_picker :: PickerState where
  "sample_picker =
     \<lparr> library =
         Some \<lparr> folders =
                  [LibraryFolder ''f1'' ''Inbox'' None [notes_document]
                     [paper_without_pdf, paper_with_pdf] [sample_repo] []],
                root_documents = [] \<rparr>,
       selectedItems = [], embedStatuses = [], loading_picker = False,
       embedding = False, error = None \<rparr>"

text \<open>Embedding back ends: every item gets the given status.\<close>

definition outcome :: "string \<Rightarrow> string \<Rightarrow> EmbedStatusItem" where
  "outcome s i =
     \<lparr> document_id = i, status = s, chunk_count = 0,
       error_message = (if s = ''failed'' then Some ''extraction failed'' else None) \<rparr>"

definition embed_api :: "string \<Rightarrow> string \<Rightarrow> EmbedApi" where
  "embed_api docStatus repoStatus =
     \<lparr> embedDocuments = (\<lambda>ds ps. Inr (map (outcome docStatus) (ds @ ps))),
       embedRepos = (\<lambda>rs. Inr (map (outcome repoStatus) rs)) \<rparr>"

text \<open>
  Conversation back ends: one that answers every call (conversation \<open>c2\<close> is a
  documents conversation in full-context mode, any other id a global one), one whose
  message endpoint rejects, and one that rejects every call.
\<close>

definition chat_api :: ChatApi where
  "chat_api =
     \<lparr> fetchConversations = Inr [],
       createConversation =
         (\<lambda>t m c. Inr \<lparr> id_data = ''c9'', mode_data = Some m, context_mode_data = Some c,
                         document_ids = None, messages_data = [] \<rparr>),
       fetchConversation =
         (\<lambda>i. if i = ''c2''
               then Inr \<lparr> id_data = i, mode_data = Some Documents,
                          context_mode_data = Some Full_context,
                          document_ids = Some [''d1''], messages_data = [] \<rparr>
               else Inr \<lparr> id_data = i, mode_data = Some Global,
                          context_mode_data = Some Rag,
                          document_ids = None, messages_data = [] \<rparr>),
       deleteConversation = (\<lambda>i. Inr ()),
       sendConversationMessage =
         (\<lambda>c q. Inr [\<lparr> id_msg = Some ''m1'', role = User, content = q,
                         citations = None, confidence = None \<rparr>,
                       \<lparr> id_msg = Some ''m2'', role = Assistant, content = ''An answer.'',
                         citations = Some [], confidence = None \<rparr>]),
       setConversationDocuments = (\<lambda>c ds. Inr ()),
       updateContextMode = (\<lambda>c m. Inr ()) \<rparr>"

definition chat_api_send_rejects :: ChatApi where
  "chat_api_send_rejects = chat_api\<lparr>sendConversationMessage := (\<lambda>c q. Inl Rejected)\<rparr>"

definition chat_api_offline :: ChatApi where
  "chat_api_offline =
     \<lparr> fetchConversations = Inl Rejected,
       createConversation = (\<lambda>t m c. Inl Rejected),
       fetchConversation = (\<lambda>i. Inl Rejected),
       deleteConversation = (\<lambda>i. Inl Rejected),
       sendConversationMessage = (\<lambda>c q. Inl Rejected),
       setConversationDocuments = (\<lambda>c ds. Inl Rejected),
       updateContextMode = (\<lambda>c m. Inl Rejected) \<rparr>"

text \<open>Picker states and controller states reached by the handlers.\<close>

definition two_sources_selected :: PickerState where
  "two_sources_selected = toggle_calls [ToggleDoc ''d1'', ToggleRepo sample_repo] sample_picker"

definition first_global_send :: "ChatState \<times> api_call list \<times> bool" where
  "first_global_send = handleSend chat_api (initialChatState\<lparr>input := ''hello''\<rparr>)"

definition active_global_chat :: ChatState where
  "active_global_chat = fst first_global_send"

definition selecting_from_active_global :: ChatState where
  "selecting_from_active_global = handleModeToggle active_global_chat"

definition selecting_from_idle_global :: ChatState where
  "selecting_from_idle_global = handleModeToggle initialChatState"

definition active_documents_chat :: ChatState where
  "active_documents_chat = fst (handleSelectConversation chat_api ''c2'' initialChatState)"

definition typing_after_reply :: ChatState where
  "typing_after_reply = active_global_chat\<lparr>input := ''  and then?  ''\<rparr>"



definition confirm_after_global_chat :: "ChatState \<times> api_call list" where
  "confirm_after_global_chat =
     handleDocumentsConfirmed chat_api [''d1''] selecting_from_active_global"

section \<open>Properties of the map operations\<close>

lemma keys_Map_set: "set (map fst (Map_set k v m)) = insert k (set (map fst m))"
proof (induction m)
  case Nil
  show ?case by simp
next
  case (Cons e m)
  obtain k' v' where e: "e = (k', v')" by (cases e)
  show ?case
  proof (cases "k' = k")
    case True
    then show ?thesis by (simp add: e insert_absorb2)
  next
    case False
    then show ?thesis using Cons.IH by (simp add: e insert_commute)
  qed
qed

lemma Map_has_set: "Map_has k' (Map_set k v m) = (k' = k \<or> Map_has k' m)"
  unfolding Map_has_def keys_Map_set by simp

lemma Map_has_delete: "Map_has k' (Map_delete k m) = (k' \<noteq> k \<and> Map_has k' m)"
  by (induction m) (auto simp: Map_has_def Map_delete_def)

lemma Map_set_absent: "\<not> Map_has k m \<Longrightarrow> Map_set k v m = m @ [(k, v)]"
  by (induction m) (auto simp: Map_has_def)

lemma Map_delete_absent: "\<not> Map_has k m \<Longrightarrow> Map_delete k m = m"
  by (induction m) (auto simp: Map_has_def Map_delete_def)

lemma Map_delete_set_absent: "\<not> Map_has k m \<Longrightarrow> Map_delete k (Map_set k v m) = m"
  by (simp add: Map_set_absent Map_delete_def) (simp add: Map_delete_absent flip: Map_delete_def)

lemma list_all_Map_set:
  "list_all P (map snd m) \<Longrightarrow> P v \<Longrightarrow> list_all P (map snd (Map_set k v m))"
  by (induction m) auto

lemma list_all_Map_delete:
  "list_all P (map snd m) \<Longrightarrow> list_all P (map snd (Map_delete k m))"
  by (induction m) (auto simp: Map_delete_def)

section \<open>Properties of the selection handlers\<close>

lemmas picker_defs =
  toggle_calls_def picker_events_def restoreSelection_def sample_picker_def
  toggleDoc_def togglePaper_def toggleRepo_def removeItem_def
  Map_has_def Map_delete_def Map_values_def Map_size_def
  doc_key_def paper_key_def repo_key_def docItem_def paperItem_def repoItem_def
  paper_without_pdf_def paper_with_pdf_def notes_document_def sample_repo_def

text \<open>The three toggle handlers have one shape; only the key and the new entry differ.\<close>

lemma toggle_call_eq:
  "toggle_call t st =
     st\<lparr>selectedItems :=
          (if Map_has (toggle_key t) (selectedItems st)
           then Map_delete (toggle_key t) (selectedItems st)
           else Map_set (toggle_key t) (toggle_item (library st) t) (selectedItems st))\<rparr>"
  by (cases t) (simp_all add: toggleDoc_def togglePaper_def toggleRepo_def Let_def)

lemma toggle_call_absent:
  "\<not> Map_has (toggle_key t) (selectedItems st) \<Longrightarrow>
     toggle_call t st =
       st\<lparr>selectedItems := Map_set (toggle_key t) (toggle_item (library st) t) (selectedItems st)\<rparr>"
  by (simp add: toggle_call_eq)

lemma toggle_call_present:
  "Map_has (toggle_key t) (selectedItems st) \<Longrightarrow>
     toggle_call t st = st\<lparr>selectedItems := Map_delete (toggle_key t) (selectedItems st)\<rparr>"
  by (simp add: toggle_call_eq)

lemma toggle_flips_membership:
  "Map_has (toggle_key t) (selectedItems (toggle_call t st))
     = (\<not> Map_has (toggle_key t) (selectedItems st))"
  by (simp add: toggle_call_eq Map_has_set Map_has_delete)

lemma toggle_twice_absent:
  assumes "toggle_key t2 = toggle_key t1" and "\<not> Map_has (toggle_key t1) (selectedItems st)"
  shows "toggle_call t2 (toggle_call t1 st) = st"
proof -
  let ?k = "toggle_key t1"
  let ?mid = "st\<lparr>selectedItems := Map_set ?k (toggle_item (library st) t1) (selectedItems st)\<rparr>"
  have mid: "toggle_call t1 st = ?mid"
    using assms(2) by (rule toggle_call_absent)
  have "Map_has (toggle_key t2) (selectedItems ?mid)"
    by (simp add: assms(1) Map_has_set)
  then have "toggle_call t2 ?mid =
               ?mid\<lparr>selectedItems := Map_delete (toggle_key t2) (selectedItems ?mid)\<rparr>"
    by (rule toggle_call_present)
  then show ?thesis
    using assms by (simp add: mid Map_delete_set_absent)
qed

lemma toggle_twice_present:
  assumes "toggle_key t2 = toggle_key t1" and "Map_has (toggle_key t1) (selectedItems st)"
  shows "toggle_call t2 (toggle_call t1 st) =
           st\<lparr>selectedItems := Map_delete (toggle_key t1) (selectedItems st) @
                                 [(toggle_key t1, toggle_item (library st) t2)]\<rparr>"
proof -
  let ?k = "toggle_key t1"
  let ?mid = "st\<lparr>selectedItems := Map_delete ?k (selectedItems st)\<rparr>"
  have mid: "toggle_call t1 st = ?mid"
    using assms(2) by (rule toggle_call_present)
  have absent: "\<not> Map_has (toggle_key t2) (selectedItems ?mid)"
    by (simp add: assms(1) Map_has_delete)
  have "toggle_call t2 ?mid =
          ?mid\<lparr>selectedItems :=
                 Map_set (toggle_key t2) (toggle_item (library ?mid) t2) (selectedItems ?mid)\<rparr>"
    using absent by (rule toggle_call_absent)
  moreover have "Map_set (toggle_key t2) (toggle_item (library ?mid) t2) (selectedItems ?mid)
                   = selectedItems ?mid @ [(toggle_key t2, toggle_item (library ?mid) t2)]"
    using absent by (rule Map_set_absent)
  ultimately show ?thesis
    by (simp add: mid assms(1))
qed

lemma toggle_twice_keys:
  assumes "toggle_key t2 = toggle_key t1"
  shows "Map_has k (selectedItems (toggle_call t2 (toggle_call t1 st))) = Map_has k (selectedItems st)"
proof (cases "Map_has (toggle_key t1) (selectedItems st)")
  case True
  show ?thesis
    using True by (auto simp: toggle_twice_present [OF assms True] Map_has_def Map_delete_def)
next
  case False
  show ?thesis by (simp add: toggle_twice_absent [OF assms False])
qed

text \<open>
  Claim C9, as the code has it. Two successive toggles of the same (kind, id) key: the
  first inserts the entry if absent and removes it if present, and after the second
  every key is selected exactly when it was before. When the key was absent at the
  start, the whole Selection Set is back to its prior state. When it was present, the
  entry has been deleted and set again: it is rebuilt from the second toggle's
  argument and the catalog, and stands last in the map's iteration order.
\<close>

theorem toggle_twice_restores_keys:
  assumes "toggle_key t2 = toggle_key t1"
  shows "Map_has (toggle_key t1) (selectedItems (toggle_call t1 st))
           = (\<not> Map_has (toggle_key t1) (selectedItems st)) \<and>
         (\<forall>k. Map_has k (selectedItems (toggle_call t2 (toggle_call t1 st)))
                = Map_has k (selectedItems st)) \<and>
         toggle_call t2 (toggle_call t1 st) =
           (if Map_has (toggle_key t1) (selectedItems st)
            then st\<lparr>selectedItems := Map_delete (toggle_key t1) (selectedItems st) @
                                       [(toggle_key t1, toggle_item (library st) t2)]\<rparr>
            else st)"
  using toggle_twice_absent [OF assms] toggle_twice_present [OF assms]
  by (simp add: toggle_flips_membership toggle_twice_keys [OF assms])

text \<open>
  The theorem at two inputs: a paper toggled on and off again from an empty selection
  (the selection is empty again), and a repository toggled off and on again while a
  document selected after it stays (the repository moves behind the document).
\<close>

theorem toggle_twice_restores_keys_witness:
  "toggle_call (TogglePaper paper_with_pdf) (toggle_call (TogglePaper paper_with_pdf) sample_picker)
     = sample_picker \<and>
   map fst (selectedItems (toggle_calls [ToggleRepo sample_repo, ToggleDoc ''d1''] sample_picker))
     = [''repo:r1'', ''doc:d1''] \<and>
   map fst (selectedItems
     (toggle_call (ToggleRepo sample_repo) (toggle_call (ToggleRepo sample_repo)
        (toggle_calls [ToggleRepo sample_repo, ToggleDoc ''d1''] sample_picker))))
     = [''doc:d1'', ''repo:r1'']"
  using toggle_twice_restores_keys
          [of "TogglePaper paper_with_pdf" "TogglePaper paper_with_pdf" sample_picker]
        toggle_twice_restores_keys
          [of "ToggleRepo sample_repo" "ToggleRepo sample_repo"
              "toggle_calls [ToggleRepo sample_repo, ToggleDoc ''d1''] sample_picker"]
  by (simp add: picker_defs)

text \<open>
  Claim C9 as stated fails on a selection restored from the attached ids: the restored
  entry of document \<open>d1\<close> is labelled by its raw id, and after it is toggled off and on
  the entry carries the catalog's file name and content type. With two restored
  entries the order of the map changes as well.
\<close>

theorem toggle_twice_not_identity:
  "toggle_call (ToggleDoc ''d1'') (toggle_call (ToggleDoc ''d1'') (restoreSelection [''d1''] sample_picker))
     \<noteq> restoreSelection [''d1''] sample_picker \<and>
   map label (Map_values (selectedItems (restoreSelection [''d1''] sample_picker))) = [''d1''] \<and>
   map label (Map_values (selectedItems
     (toggle_call (ToggleDoc ''d1'') (toggle_call (ToggleDoc ''d1'')
        (restoreSelection [''d1''] sample_picker)))))
     = [''notes.pdf''] \<and>
   map fst (selectedItems (restoreSelection [''d1'', ''d2''] sample_picker))
     = [''doc:d1'', ''doc:d2''] \<and>
   map fst (selectedItems
     (toggle_call (ToggleDoc ''d1'') (toggle_call (ToggleDoc ''d1'')
        (restoreSelection [''d1'', ''d2''] sample_picker))))
     = [''doc:d2'', ''doc:d1'']"
  by (simp add: picker_defs)

subsection \<open>Papers without a PDF\<close>

lemma no_pdfless_paper_step:
  assumes "no_pdfless_paper st"
  shows "no_pdfless_paper (picker_event_step e st)"
proof (cases e)
  case (ChangeDocCheckbox i)
  then show ?thesis
    using assms
    by (simp add: no_pdfless_paper_def toggleDoc_def Map_values_def Let_def docItem_def
        list_all_Map_set list_all_Map_delete)
next
  case (ChangePaperCheckbox p)
  then show ?thesis
    using assms
    by (simp add: no_pdfless_paper_def togglePaper_def Map_values_def Let_def paperItem_def
        paper_has_pdf_def paperCheckboxDisabled_def list_all_Map_set list_all_Map_delete)
next
  case (ChangeRepoCheckbox r)
  then show ?thesis
    using assms
    by (simp add: no_pdfless_paper_def toggleRepo_def Map_values_def Let_def repoItem_def
        list_all_Map_set list_all_Map_delete)
next
  case (ClickRemove key)
  then show ?thesis
    using assms
    by (simp add: no_pdfless_paper_def removeItem_def Map_values_def list_all_Map_delete)
qed

lemma no_pdfless_paper_events:
  "no_pdfless_paper st \<Longrightarrow> no_pdfless_paper (picker_events es st)"
  unfolding picker_events_def
  by (induction es arbitrary: st) (simp_all add: no_pdfless_paper_step)

lemma fold_Map_set_list_all:
  "list_all P (map snd m) \<Longrightarrow> (\<And>i. P (f i)) \<Longrightarrow>
   list_all P (map snd (fold (\<lambda>i m. Map_set (g i) (f i) m) ids m))"
  by (induction ids arbitrary: m) (simp_all add: list_all_Map_set)

lemma no_pdfless_paper_restore: "no_pdfless_paper (restoreSelection ids st)"
  unfolding no_pdfless_paper_def restoreSelection_def Map_values_def
  by (simp add: fold_Map_set_list_all)

text \<open>
  Claim C1, as the code has it. The guard is the disabled checkbox, not the handler:
  from the selection restored when the picker opens, under any sequence of the events
  the rendered picker can deliver (checkbox changes, which a paper without
  \<^verbatim>\<open>pdf_url\<close> and without \<^verbatim>\<open>has_local_pdf\<close> cannot fire, and removals), no paper
  item whose catalog record lacks both is in the Selection Set.
\<close>

theorem picker_never_selects_pdfless_paper:
  "no_pdfless_paper (picker_events es (restoreSelection ids st))"
  by (rule no_pdfless_paper_events [OF no_pdfless_paper_restore])

text \<open>
  The theorem on a run that clicks the disabled paper, an enabled paper and a
  document: the paper without a PDF is the one key that is not selected.
\<close>

theorem picker_never_selects_pdfless_paper_witness:
  "no_pdfless_paper
     (picker_events [ChangePaperCheckbox paper_without_pdf, ChangePaperCheckbox paper_with_pdf,
                     ChangeDocCheckbox ''d1'']
        (restoreSelection [''d0''] sample_picker)) \<and>
   map fst (selectedItems
     (picker_events [ChangePaperCheckbox paper_without_pdf, ChangePaperCheckbox paper_with_pdf,
                     ChangeDocCheckbox ''d1'']
        (restoreSelection [''d0''] sample_picker)))
     = [''doc:d0'', ''paper:p2'', ''doc:d1'']"
  using picker_never_selects_pdfless_paper
     [of "[ChangePaperCheckbox paper_without_pdf, ChangePaperCheckbox paper_with_pdf,
           ChangeDocCheckbox ''d1'']" "[''d0'']" sample_picker]
  by (simp add: picker_defs paperCheckboxDisabled_def truthy_def)

text \<open>
  Claim C1 as stated fails: \<^verbatim>\<open>togglePaper\<close> itself checks nothing, so one direct call
  with a paper that has neither a PDF link nor a stored PDF puts it into the
  Selection Set.
\<close>

theorem togglePaper_accepts_pdfless_paper:
  "paperCheckboxDisabled paper_without_pdf \<and>
   Map_has (paper_key (paper_id paper_without_pdf))
     (selectedItems (toggle_calls [TogglePaper paper_without_pdf]
        (restoreSelection [] sample_picker))) \<and>
   \<not> no_pdfless_paper (toggle_calls [TogglePaper paper_without_pdf]
        (restoreSelection [] sample_picker))"
  by (simp add: picker_defs paperCheckboxDisabled_def truthy_def no_pdfless_paper_def
      paper_has_pdf_def)

section \<open>Properties of the submission\<close>

lemma mergedOutcomes_SomeD:
  assumes "mergedOutcomes api st = Some rs"
  shows "Map_size (selectedItems st) \<noteq> 0"
    and "\<exists>results. Promise_all (embedPromises api st) = Inr results \<and> concat results = rs"
  using assms by (auto simp: mergedOutcomes_def split: if_splits sum.splits)

lemma handleConfirm_merged:
  assumes "mergedOutcomes api st = Some rs"
  shows "handleConfirm api st =
     (let st2 = st\<lparr>embedding := True, error := None, embedStatuses := statusMap rs\<rparr>;
          failures = filter (\<lambda>r. status r = ''failed'') rs in
      if length failures > 0 \<and> length failures = length rs
      then (st2\<lparr>error := Some ''All items failed to embed'', embedding := False\<rparr>, None)
      else (st2\<lparr>embedding := False\<rparr>,
            Some (map document_id (filter (\<lambda>r. status r = ''completed'') rs))))"
  using mergedOutcomes_SomeD [OF assms]
  by (auto simp: handleConfirm_def Let_def)

lemma handleConfirm_all_failed:
  assumes "mergedOutcomes api st = Some rs"
    and "length (filter (\<lambda>r. status r = ''failed'') rs) > 0 \<and>
         length (filter (\<lambda>r. status r = ''failed'') rs) = length rs"
  shows "handleConfirm api st =
     (st\<lparr>embedding := True, error := None, embedStatuses := statusMap rs,
         error := Some ''All items failed to embed'', embedding := False\<rparr>, None)"
  unfolding handleConfirm_merged [OF assms(1)] Let_def using assms(2) by (rule if_P)

lemma handleConfirm_proceeds:
  assumes "mergedOutcomes api st = Some rs"
    and "\<not> (length (filter (\<lambda>r. status r = ''failed'') rs) > 0 \<and>
         length (filter (\<lambda>r. status r = ''failed'') rs) = length rs)"
  shows "handleConfirm api st =
     (st\<lparr>embedding := True, error := None, embedStatuses := statusMap rs, embedding := False\<rparr>,
      Some (map document_id (filter (\<lambda>r. status r = ''completed'') rs)))"
  unfolding handleConfirm_merged [OF assms(1)] Let_def using assms(2) by (rule if_not_P)

lemma filter_status_all:
  "(\<forall>r\<in>set rs. status r = s) \<Longrightarrow> filter (\<lambda>r. status r = s) rs = rs"
  by (induction rs) auto

lemma filter_status_none:
  "(\<forall>r\<in>set rs. status r \<noteq> s) \<Longrightarrow> filter (\<lambda>r. status r = s) rs = []"
  by (induction rs) auto

lemma length_filter_status_less:
  assumes "r \<in> set rs" and "status r \<noteq> s"
  shows "length (filter (\<lambda>r. status r = s) rs) < length rs"
  using assms by (rule length_filter_less)

lemmas submit_defs =
  two_sources_selected_def mergedOutcomes_def embedPromises_def ids_of_type_def embed_api_def
  outcome_def statusMap_def

text \<open>
  Claim C2. When the merged outcomes of a submission are non-empty and all have status
  \<open>failed\<close>, \<^verbatim>\<open>handleConfirm\<close> sets the single error ``All items failed to embed'',
  does not call \<^verbatim>\<open>onConfirm\<close> (no ready ids are handed back), and leaves the
  \<^verbatim>\<open>embedding\<close> flag cleared; the selection is kept for a retry.
\<close>

theorem all_failed_aggregate_error:
  assumes "mergedOutcomes api st = Some rs" and "rs \<noteq> []"
    and "\<forall>r\<in>set rs. status r = ''failed''"
  shows "snd (handleConfirm api st) = None \<and>
         error (fst (handleConfirm api st)) = Some ''All items failed to embed'' \<and>
         embedding (fst (handleConfirm api st)) = False \<and>
         selectedItems (fst (handleConfirm api st)) = selectedItems st"
proof -
  have "filter (\<lambda>r. status r = ''failed'') rs = rs"
    using assms(3) by (rule filter_status_all)
  then have "length (filter (\<lambda>r. status r = ''failed'') rs) > 0 \<and>
             length (filter (\<lambda>r. status r = ''failed'') rs) = length rs"
    using assms(2) by simp
  from handleConfirm_all_failed [OF assms(1) this] show ?thesis
    by simp
qed

text \<open>A document and a repository are submitted and both fail.\<close>

theorem all_failed_aggregate_error_witness:
  "mergedOutcomes (embed_api ''failed'' ''failed'') two_sources_selected
     = Some [outcome ''failed'' ''d1'', outcome ''failed'' ''r1''] \<and>
   (snd (handleConfirm (embed_api ''failed'' ''failed'') two_sources_selected) = None \<and>
    error (fst (handleConfirm (embed_api ''failed'' ''failed'') two_sources_selected))
      = Some ''All items failed to embed'' \<and>
    embedding (fst (handleConfirm (embed_api ''failed'' ''failed'') two_sources_selected)) = False \<and>
    selectedItems (fst (handleConfirm (embed_api ''failed'' ''failed'') two_sources_selected))
      = selectedItems two_sources_selected)"
proof -
  have rs: "mergedOutcomes (embed_api ''failed'' ''failed'') two_sources_selected
              = Some [outcome ''failed'' ''d1'', outcome ''failed'' ''r1'']"
    by (simp add: submit_defs picker_defs)
  have ne: "[outcome ''failed'' ''d1'', outcome ''failed'' ''r1''] \<noteq> []"
    by simp
  have all: "\<forall>r\<in>set [outcome ''failed'' ''d1'', outcome ''failed'' ''r1'']. status r = ''failed''"
    by (simp add: outcome_def)
  from rs all_failed_aggregate_error [OF rs ne all] show ?thesis
    by (rule conjI)
qed


text \<open>
  Claim C3. When the merged outcomes contain at least one item with status
  \<open>completed\<close>, \<^verbatim>\<open>handleConfirm\<close> sets no error and calls \<^verbatim>\<open>onConfirm\<close> with
  exactly the ids of the outcomes whose status is \<open>completed\<close>, in the order of the
  outcomes; so with \<open>k\<close> of \<open>N\<close> outcomes completed, those \<open>k\<close> ids are handed back.
\<close>

theorem some_completed_ready_ids:
  assumes "mergedOutcomes api st = Some rs" and "\<exists>r\<in>set rs. status r = ''completed''"
  shows "snd (handleConfirm api st) =
           Some (map document_id (filter (\<lambda>r. status r = ''completed'') rs)) \<and>
         error (fst (handleConfirm api st)) = None \<and>
         embedding (fst (handleConfirm api st)) = False"
proof -
  obtain r where r: "r \<in> set rs" "status r = ''completed''"
    using assms(2) by blast
  have "status r \<noteq> ''failed''"
    by (simp add: r(2))
  from length_filter_status_less [OF r(1) this]
  have "\<not> (length (filter (\<lambda>r. status r = ''failed'') rs) > 0 \<and>
         length (filter (\<lambda>r. status r = ''failed'') rs) = length rs)"
    by linarith
  from handleConfirm_proceeds [OF assms(1) this] show ?thesis
    by simp
qed

text \<open>One of two outcomes is completed: the ready list is that one id.\<close>

theorem some_completed_ready_ids_witness:
  "mergedOutcomes (embed_api ''completed'' ''failed'') two_sources_selected
     = Some [outcome ''completed'' ''d1'', outcome ''failed'' ''r1''] \<and>
   (snd (handleConfirm (embed_api ''completed'' ''failed'') two_sources_selected) =
      Some (map document_id (filter (\<lambda>r. status r = ''completed'')
             [outcome ''completed'' ''d1'', outcome ''failed'' ''r1''])) \<and>
    error (fst (handleConfirm (embed_api ''completed'' ''failed'') two_sources_selected)) = None \<and>
    embedding (fst (handleConfirm (embed_api ''completed'' ''failed'') two_sources_selected)) = False) \<and>
   map document_id (filter (\<lambda>r. status r = ''completed'')
     [outcome ''completed'' ''d1'', outcome ''failed'' ''r1'']) = [''d1'']"
proof -
  have rs: "mergedOutcomes (embed_api ''completed'' ''failed'') two_sources_selected
              = Some [outcome ''completed'' ''d1'', outcome ''failed'' ''r1'']"
    by (simp add: submit_defs picker_defs)
  have ex: "\<exists>r\<in>set [outcome ''completed'' ''d1'', outcome ''failed'' ''r1''].
              status r = ''completed''"
    by (simp add: outcome_def)
  have ready: "map document_id (filter (\<lambda>r. status r = ''completed'')
     [outcome ''completed'' ''d1'', outcome ''failed'' ''r1'']) = [''d1'']"
    by (simp add: outcome_def)
  from rs some_completed_ready_ids [OF rs ex] ready show ?thesis
    by (rule conjI [OF _ conjI])
qed

text \<open>
  Claim C10. When the merged outcomes are non-empty and none is \<open>failed\<close> and none is
  \<open>completed\<close>, \<^verbatim>\<open>handleConfirm\<close> sets no error and calls \<^verbatim>\<open>onConfirm\<close> with the
  empty list; \<^verbatim>\<open>handleDocumentsConfirmed\<close> then closes the picker, empties the attached
  ids and sets the mode to global, without a network request.
\<close>

theorem no_outcome_settled_bounces:
  assumes "mergedOutcomes eapi ps = Some rs" and "rs \<noteq> []"
    and "\<forall>r\<in>set rs. status r \<noteq> ''failed'' \<and> status r \<noteq> ''completed''"
  shows "snd (handleConfirm eapi ps) = Some [] \<and>
         error (fst (handleConfirm eapi ps)) = None \<and>
         confirmPressed eapi capi (ps, cs) =
           ((fst (handleConfirm eapi ps),
             cs\<lparr>pickerOpen := False, activeDocumentIds := [], activeMode := Global\<rparr>), [])"
proof -
  have f: "filter (\<lambda>r. status r = ''failed'') rs = []"
    using assms(3) by (intro filter_status_none) simp
  have c: "filter (\<lambda>r. status r = ''completed'') rs = []"
    using assms(3) by (intro filter_status_none) simp
  have "\<not> (length (filter (\<lambda>r. status r = ''failed'') rs) > 0 \<and>
         length (filter (\<lambda>r. status r = ''failed'') rs) = length rs)"
    by (simp add: f)
  from handleConfirm_proceeds [OF assms(1) this]
  have hc: "handleConfirm eapi ps =
      (ps\<lparr>embedding := True, error := None, embedStatuses := statusMap rs, embedding := False\<rparr>,
       Some [])"
    by (simp add: c)
  show ?thesis
    by (simp add: hc confirmPressed_def handleDocumentsConfirmed_def Let_def)
qed

text \<open>
  Both items are still processing; the controller, which was selecting documents from
  the initial state, is back in the initial state.
\<close>

theorem no_outcome_settled_bounces_witness:
  "mergedOutcomes (embed_api ''processing'' ''processing'') two_sources_selected
     = Some [outcome ''processing'' ''d1'', outcome ''processing'' ''r1''] \<and>
   (snd (handleConfirm (embed_api ''processing'' ''processing'') two_sources_selected) = Some [] \<and>
    error (fst (handleConfirm (embed_api ''processing'' ''processing'') two_sources_selected)) = None \<and>
    confirmPressed (embed_api ''processing'' ''processing'') chat_api
        (two_sources_selected, selecting_from_idle_global) =
      ((fst (handleConfirm (embed_api ''processing'' ''processing'') two_sources_selected),
        selecting_from_idle_global
          \<lparr>pickerOpen := False, activeDocumentIds := [], activeMode := Global\<rparr>), [])) \<and>
   selecting_from_idle_global\<lparr>pickerOpen := False, activeDocumentIds := [], activeMode := Global\<rparr>
     = initialChatState"
proof -
  have rs: "mergedOutcomes (embed_api ''processing'' ''processing'') two_sources_selected
              = Some [outcome ''processing'' ''d1'', outcome ''processing'' ''r1'']"
    by (simp add: submit_defs picker_defs)
  have ne: "[outcome ''processing'' ''d1'', outcome ''processing'' ''r1''] \<noteq> []"
    by simp
  have none: "\<forall>r\<in>set [outcome ''processing'' ''d1'', outcome ''processing'' ''r1''].
                status r \<noteq> ''failed'' \<and> status r \<noteq> ''completed''"
    by (simp add: outcome_def)
  have undone: "selecting_from_idle_global
                \<lparr>pickerOpen := False, activeDocumentIds := [], activeMode := Global\<rparr>
              = initialChatState"
    by (simp add: selecting_from_idle_global_def handleModeToggle_def initialChatState_def)
  from rs no_outcome_settled_bounces [OF rs ne none] undone show ?thesis
    by (rule conjI [OF _ conjI])
qed

section \<open>Properties of the conversation controller\<close>

text \<open>The trimmed questions of the runs below, and questions that are white space only.\<close>

lemma trim_examples:
  "trim ''hello'' = ''hello''"
  "trim ''  and then?  '' = ''and then?''"
  "trim ''a'' = ''a''"
  "trim ''b'' = ''b''"
  by code_simp+

lemma trim_unicode_white_space:
  "trim [CHR 0xC2, CHR 0xA0, CHR 0x0A, CHR 0xE2, CHR 0x80, CHR 0xA8, CHR 0xEF, CHR 0xBB, CHR 0xBF] = []"
  "trim [CHR 0xE3, CHR 0x80, CHR 0x80, CHR ''q'', CHR 0xC2, CHR 0xA0] = ''q''"
  by code_simp+

lemmas chat_defs =
  initialChatState_def chat_api_def chat_api_send_rejects_def chat_api_offline_def
  first_global_send_def active_global_chat_def selecting_from_active_global_def
  selecting_from_idle_global_def active_documents_chat_def confirm_after_global_chat_def
  typing_after_reply_def
  handleSend_def handleSend_begin_def handleSend_rest_def ensureConversation_def
  loadConversations_def handleModeToggle_def handleSelectConversation_def
  handleDocumentsConfirmed_def handleContextModeToggle_def clickContextMode_def
  contextToggleRendered_def copyMessage_def userMessage_def trim_examples
  truthy_def Idle_global_def Let_def


text \<open>\<open>Idle(global)\<close> is the state a new chat starts in.\<close>

lemma handleNewChat_Idle_global: "Idle_global (handleNewChat st) \<and> messages (handleNewChat st) = []"
  by (simp add: handleNewChat_def Idle_global_def)

lemma initialChatState_Idle_global: "Idle_global initialChatState"
  by (simp add: initialChatState_def Idle_global_def)

subsection \<open>Confirming an empty ready list\<close>

text \<open>
  Claim C5, as the code has it. Confirming with an empty ready-id list undoes the
  switch to documents mode: the picker is closed, the mode is global and the attached
  ids are empty, and no network request is issued. The handler does not touch the
  context mode or the conversation id, so the result is \<open>Idle(global)\<close> when no
  conversation was bound and the context mode was \<open>rag\<close>; and when the picker had
  been opened from global mode, the controller is back in the state it had before the
  switch, its conversation still bound.
\<close>

theorem empty_confirmation_undoes_mode_switch:
  "pickerOpen (fst (handleDocumentsConfirmed api [] st)) = False \<and>
   activeMode (fst (handleDocumentsConfirmed api [] st)) = Global \<and>
   activeDocumentIds (fst (handleDocumentsConfirmed api [] st)) = [] \<and>
   snd (handleDocumentsConfirmed api [] st) = [] \<and>
   (contextMode st = Rag \<and> activeConversationId st = None \<longrightarrow>
      Idle_global (fst (handleDocumentsConfirmed api [] st))) \<and>
   (activeMode st0 = Global \<longrightarrow>
      fst (handleDocumentsConfirmed api [] (handleModeToggle st0))
        = st0\<lparr>pickerOpen := False, activeDocumentIds := []\<rparr>)"
  by (simp add: handleDocumentsConfirmed_def handleModeToggle_def Idle_global_def Let_def)

text \<open>
  From \<open>Selecting(documents)\<close> entered from the initial state the result is
  \<open>Idle(global)\<close>; entered from an active global conversation the result is that
  conversation's state again.
\<close>

theorem empty_confirmation_undoes_mode_switch_witness:
  "Idle_global (fst (handleDocumentsConfirmed chat_api [] selecting_from_idle_global)) \<and>
   fst (handleDocumentsConfirmed chat_api [] (handleModeToggle active_global_chat))
     = active_global_chat \<and>
   activeMode active_global_chat = Global \<and> activeConversationId active_global_chat = Some ''c9''"
  using empty_confirmation_undoes_mode_switch [of chat_api selecting_from_idle_global active_global_chat]
  by (simp add: chat_defs)

text \<open>
  Claim C5 as stated fails from \<open>Selecting(documents)\<close> when a conversation was active
  before the switch: after the empty confirmation conversation \<open>c9\<close> is still bound,
  which is not \<open>Idle(global)\<close>.
\<close>

theorem empty_confirmation_keeps_conversation:
  "activeMode selecting_from_active_global = Documents \<and>
   pickerOpen selecting_from_active_global \<and>
   activeConversationId (fst (handleDocumentsConfirmed chat_api [] selecting_from_active_global))
     = Some ''c9'' \<and>
   \<not> Idle_global (fst (handleDocumentsConfirmed chat_api [] selecting_from_active_global))"
  by (simp add: chat_defs)

subsection \<open>Confirming a non-empty ready list\<close>

text \<open>
  What \<^verbatim>\<open>handleDocumentsConfirmed\<close> does with a non-empty list, by its guard
  \<^verbatim>\<open>!convId || activeMode !== "documents"\<close>: under the guard it first issues the
  create call with mode documents and the current context mode, and on success binds
  the new conversation, clears the transcript, refreshes the list and then issues the
  association call; on rejection it stops. Otherwise it issues the association call
  alone, for whatever conversation is bound.
\<close>

lemma documents_confirmed_creates:
  assumes "docIds \<noteq> []"
    and "\<not> truthy (activeConversationId st) \<or> activeMode st \<noteq> Documents"
    and "createConversation api None Documents (contextMode st) = Inr conv"
  shows "handleDocumentsConfirmed api docIds st =
           (fst (loadConversations api
                  (st\<lparr>pickerOpen := False, activeDocumentIds := docIds,
                      activeConversationId := Some (id_data conv), messages := []\<rparr>)),
            [CreateConversation None Documents (contextMode st), FetchConversations,
             SetConversationDocuments (id_data conv) docIds])"
  using assms
  by (auto simp: handleDocumentsConfirmed_def loadConversations_def Let_def split: sum.splits)

lemma documents_confirmed_create_rejected:
  assumes "docIds \<noteq> []"
    and "\<not> truthy (activeConversationId st) \<or> activeMode st \<noteq> Documents"
    and "createConversation api None Documents (contextMode st) = Inl e"
  shows "handleDocumentsConfirmed api docIds st =
           (st\<lparr>pickerOpen := False, activeDocumentIds := docIds\<rparr>,
            [CreateConversation None Documents (contextMode st)])"
  using assms
  by (auto simp: handleDocumentsConfirmed_def Let_def)

lemma documents_confirmed_reuses:
  assumes "docIds \<noteq> []" and "activeConversationId st = Some c" and "c \<noteq> []"
    and "activeMode st = Documents"
  shows "handleDocumentsConfirmed api docIds st =
           (st\<lparr>pickerOpen := False, activeDocumentIds := docIds\<rparr>,
            [SetConversationDocuments c docIds])"
  using assms
  by (simp add: handleDocumentsConfirmed_def truthy_def Let_def)

text \<open>
  The switch to documents mode keeps the bound conversation and sets the mode, so a
  confirmation that follows it on an active global conversation takes the second
  branch.
\<close>

lemma confirm_after_mode_toggle_reuses:
  assumes "docIds \<noteq> []" and "activeMode st = Global"
    and "activeConversationId st = Some c" and "c \<noteq> []"
  shows "handleDocumentsConfirmed api docIds (handleModeToggle st) =
           (st\<lparr>activeMode := Documents, pickerOpen := False, activeDocumentIds := docIds\<rparr>,
            [SetConversationDocuments c docIds])"
  using assms
  by (simp add: handleDocumentsConfirmed_def handleModeToggle_def truthy_def Let_def)

text \<open>
  Claim C4 at the input where the code departs from it. The first send in global mode
  creates conversation \<open>c9\<close> with mode global; the user then switches to documents
  mode, which sets \<^verbatim>\<open>activeMode\<close> before the picker opens, and confirms one ready
  document. No conversation is active in documents mode, yet no documents conversation
  is created: the only request is the association call on the global conversation
  \<open>c9\<close>, which stays bound.
\<close>

theorem confirm_reuses_global_conversation:
  "snd first_global_send =
     ([CreateConversation None Global Rag, SendConversationMessage ''c9'' ''hello'',
       FetchConversations], False) \<and>
   activeMode active_global_chat = Global \<and>
   activeConversationId active_global_chat = Some ''c9'' \<and>
   activeMode selecting_from_active_global = Documents \<and>
   confirm_after_global_chat =
     (selecting_from_active_global\<lparr>pickerOpen := False, activeDocumentIds := [''d1'']\<rparr>,
      [SetConversationDocuments ''c9'' [''d1'']])"
  by (simp add: chat_defs)

subsection \<open>Sending a message\<close>

lemmas interleaved_defs =
  handleSend_rest_interleaved_def sendAwaited_def sendFailed_def Let_def split_def

lemma begin_closure:
  assumes "handleSend_begin st = Some (q, st1)"
  shows "activeConversationId st1 = activeConversationId st"
    and "activeMode st1 = activeMode st"
    and "contextMode st1 = contextMode st"
    and "activeDocumentIds st1 = activeDocumentIds st"
    and "messages st1 = messages st @ [userMessage q]"
  using assms by (auto simp: handleSend_begin_def Let_def split: if_splits)

lemma send_rejected_begin:
  assumes "handleSend_begin st = Some (q, st1)"
  shows "send_rejected api q st1 = send_rejected api q st"
  unfolding send_rejected_def
  by (simp only: begin_closure [OF assms] cong: option.case_cong sum.case_cong)

lemma sendAwaited_none:
  "sendAwaited api no_interference q convId calls cur =
     (case sendConversationMessage api convId q of
        Inl e \<Rightarrow>
          (cur\<lparr>messages := messages cur @ [failureNotice], loading := False\<rparr>,
           calls @ [SendConversationMessage convId q], True)
      | Inr data \<Rightarrow>
          let st2 = cur\<lparr>messages := butlast (messages cur) @ map copyMessage data\<rparr>;
              (st3, calls') = loadConversations api st2
          in (st3\<lparr>loading := False\<rparr>,
              calls @ [SendConversationMessage convId q] @ calls', False))"
  by (simp add: sendAwaited_def sendFailed_def no_interference_def Let_def split: sum.splits)

text \<open>With no interference the interleaved handler is \<^verbatim>\<open>handleSend\<close> as modelled above.\<close>

lemma handleSend_rest_interleaved_none:
  "handleSend_rest_interleaved api no_interference q st = handleSend_rest api q st"
proof (cases "truthy (activeConversationId st)")
  case True
  then obtain c where c: "activeConversationId st = Some c"
    by (cases "activeConversationId st") (simp_all add: truthy_def)
  show ?thesis
    using True
    by (simp add: handleSend_rest_interleaved_def handleSend_rest_def ensureConversation_def
        sendAwaited_none c split: sum.splits)
next
  case False
  show ?thesis
  proof (cases "createConversation api None (activeMode st) (contextMode st)")
    case (Inl e)
    then show ?thesis
      using False
      by (simp add: handleSend_rest_interleaved_def handleSend_rest_def ensureConversation_def
          sendFailed_def no_interference_def Let_def)
  next
    case (Inr conv)
    show ?thesis
    proof (cases "activeMode st = Documents \<and> length (activeDocumentIds st) > 0")
      case docs: True
      show ?thesis
      proof (cases "setConversationDocuments api (id_data conv) (activeDocumentIds st)")
        case (Inl e)
        then show ?thesis
          using False Inr docs
          by (simp add: handleSend_rest_interleaved_def handleSend_rest_def
              ensureConversation_def sendFailed_def no_interference_def Let_def)
      next
        case ok: (Inr u)
        have "during_setDocuments no_interference = (\<lambda>s. s)"
             "during_create no_interference = (\<lambda>s. s)"
          by (simp_all add: no_interference_def)
        then show ?thesis
          using False Inr docs ok
          by (simp add: handleSend_rest_interleaved_def handleSend_rest_def
              ensureConversation_def sendAwaited_none Let_def split: sum.splits)
      qed
    next
      case nodocs: False
      have "during_create no_interference = (\<lambda>s. s)"
        by (simp add: no_interference_def)
      then show ?thesis
        using False Inr nodocs
        by (auto simp: handleSend_rest_interleaved_def handleSend_rest_def
            ensureConversation_def sendAwaited_none Let_def split: sum.splits)
    qed
  qed
qed

lemma handleSend_interleaved_none:
  "handleSend_interleaved api no_interference st = handleSend api st"
  by (simp add: handleSend_interleaved_def handleSend_def handleSend_rest_interleaved_none
      split: option.splits)

text \<open>
  Which requests are issued, and whether one is rejected, is decided by the back end
  and the closure alone: the \<^verbatim>\<open>catch\<close> block runs exactly when the back end rejects a
  request of the send, whatever the other handlers do meanwhile.
\<close>

lemma interleaved_failed_iff:
  "snd (snd (handleSend_rest_interleaved api w q cl)) = send_rejected api q cl"
  by (auto simp: interleaved_defs send_rejected_def loadConversations_def
      split: option.splits sum.splits)




lemma handleSend_failed_iff:
  assumes "handleSend_begin st = Some (q, st1)"
  shows "snd (snd (handleSend api st)) = send_rejected api q st"
proof -
  have "handleSend api st = handleSend_rest_interleaved api no_interference q st1"
    by (simp add: handleSend_def assms handleSend_rest_interleaved_none)
  then show ?thesis
    by (simp add: interleaved_failed_iff send_rejected_begin [OF assms])
qed














subsection \<open>Toggling the context mode\<close>

text \<open>
  Claim C8. The context-mode buttons exist only while the mode is documents and the
  attached ids are non-empty; a click outside that state changes nothing. When
  toggled, the local context mode is the chosen one whatever the back end answers, and
  the update call is issued if and only if a conversation id is bound; its rejection
  is swallowed.
\<close>

theorem context_mode_toggle_optimistic:
  "(\<not> contextToggleRendered st \<longrightarrow> clickContextMode api m st = (st, [])) \<and>
   (contextToggleRendered st \<longrightarrow> clickContextMode api m st = handleContextModeToggle api m st) \<and>
   fst (handleContextModeToggle api m st) = st\<lparr>contextMode := m\<rparr> \<and>
   snd (handleContextModeToggle api m st) =
     (case activeConversationId st of
        None \<Rightarrow> []
      | Some convId \<Rightarrow> if convId = [] then [] else [UpdateContextMode convId m]) \<and>
   ((\<exists>convId. UpdateContextMode convId m \<in> set (snd (handleContextModeToggle api m st)))
      = truthy (activeConversationId st))"
  by (auto simp: clickContextMode_def handleContextModeToggle_def truthy_def Let_def
      split: option.splits sum.splits)

text \<open>
  With a back end that rejects every call: in a documents conversation the toggle
  updates the local mode and issues the call; in the initial state there is no button.
\<close>

theorem context_mode_toggle_optimistic_witness:
  "contextToggleRendered active_documents_chat \<and>
   clickContextMode chat_api_offline Rag active_documents_chat
     = (active_documents_chat\<lparr>contextMode := Rag\<rparr>, [UpdateContextMode ''c2'' Rag]) \<and>
   contextMode active_documents_chat = Full_context \<and>
   \<not> contextToggleRendered initialChatState \<and>
   clickContextMode chat_api_offline Full_context initialChatState = (initialChatState, [])"
proof -
  have r: "contextToggleRendered active_documents_chat"
    by (simp add: chat_defs)
  have c: "activeConversationId active_documents_chat = Some ''c2''"
    by (simp add: chat_defs)
  have f: "contextMode active_documents_chat = Full_context"
    by (simp add: chat_defs)
  have n: "\<not> contextToggleRendered initialChatState"
    by (simp add: chat_defs)
  show ?thesis
    using context_mode_toggle_optimistic [where st = active_documents_chat and api = chat_api_offline and m = Rag]
      context_mode_toggle_optimistic [where st = initialChatState and api = chat_api_offline and m = Full_context]
      r c f n
    by (simp add: prod_eq_iff)
qed

end
